theory Spec2Isabelle
  imports Main "HOL-Library.Word" "HOL-Library.Sublist"
begin

unbundle bit_operations_syntax

section \<open>Values, errors and identities\<close>

text \<open>
  Layers, their \<open>state\<close> objects, their \<open>internalState\<close> objects (class LayerState) and the
  per-property async records are JavaScript objects that are shared by reference.  Each kind
  lives in its own store, indexed by an address; an array that is only compared by identity
  is represented by its address alone.
\<close>

type_synonym ref = nat
type_synonym sref = nat
type_synonym iref = nat
type_synonym pref = nat
type_synonym aref = nat

text \<open>Everything that can be thrown.  \<open>HookError\<close> is an exception raised by application code
  (a lifecycle method of a layer subclass).\<close>

datatype error = AssertionError string | TypeError string | HookError string

datatype 'a outcome = Returned 'a | Threw error

text \<open>The JavaScript values that the redraw flags range over.\<close>

datatype jsval = JUndefined | JNull | JBool bool | JStr string

fun truthy :: "jsval \<Rightarrow> bool" where
  "truthy JUndefined = False"
| "truthy JNull = False"
| "truthy (JBool b) = b"
| "truthy (JStr s) = (s \<noteq> [])"

text \<open>\<open>a || b\<close> and \<open>a && b\<close> on values (both operands are already evaluated where the
  model uses them, and evaluating them has no effect).\<close>

definition js_or :: "jsval \<Rightarrow> jsval \<Rightarrow> jsval" where
  "js_or a b = (if truthy a then a else b)"

definition js_and :: "jsval \<Rightarrow> jsval \<Rightarrow> jsval" where
  "js_and a b = (if truthy a then b else a)"

section \<open>Picking colours (class Layer)\<close>

text \<open>
  The bitwise operators of JavaScript first convert their operands to 32-bit signed integers
  (ToInt32); \<open>>>\<close> is the arithmetic shift.  Indices are integral numbers, modelled as \<open>int\<close>.
\<close>

definition ToInt32 :: "int \<Rightarrow> int" where
  "ToInt32 x = (x + 2 ^ 31) mod 2 ^ 32 - 2 ^ 31"

definition js_sar :: "int \<Rightarrow> nat \<Rightarrow> int" where
  "js_sar x k = ToInt32 x div 2 ^ (k mod 32)"

definition js_band :: "int \<Rightarrow> int \<Rightarrow> int" where
  "js_band x y = ToInt32 x AND ToInt32 y"

definition encodePickingColor :: "int \<Rightarrow> error + int list" where
  "encodePickingColor i =
     (if js_band (js_sar (i + 1) 24) 255 = 0
      then Inr [js_band (i + 1) 255,
                js_band (js_sar (i + 1) 8) 255,
                js_band (js_sar (js_sar (i + 1) 8) 8) 255]
      else Inl (AssertionError ''index out of picking color range''))"

text \<open>Storing numbers into a \<open>Uint8Array\<close> keeps their low eight bits.\<close>

definition toUint8Array :: "int list \<Rightarrow> 8 word list" where
  "toUint8Array xs = map word_of_int xs"

text \<open>\<open>decodePickingColor\<close> destructures the first three bytes of a \<open>Uint8Array\<close>; with
  fewer than three the arithmetic is on \<open>undefined\<close> and the result is NaN, here \<open>None\<close>.\<close>

fun decodePickingColor :: "8 word list \<Rightarrow> int option" where
  "decodePickingColor (i1 # i2 # i3 # rest) = Some (uint i1 + uint i2 * 256 + uint i3 * 65536 - 1)"
| "decodePickingColor _ = None"


section \<open>The lifecycle data model\<close>

text \<open>
  Names follow the JavaScript sources.  A method whose name starts with an underscore loses
  it (\<open>_loadData\<close> is \<open>loadData\<close>); where two classes have a method of the same name the
  class is prefixed (\<open>LayerObject_initialize\<close>, \<open>LayerManager_setLayers\<close>).
\<close>

datatype LIFECYCLE =
  NO_STATE | MATCHED | INITIALIZED | AWAITING_GC | AWAITING_FINALIZATION | FINALIZED

text \<open>The \<open>data\<close> property is either a string (a URL to load) or anything else (inline
  data, identified by a number).  The remaining properties are kept as a key/value list.\<close>

datatype dataProp = Url string | Inline nat

record layerProps =
  p_id :: string
  p_data :: dataProp
  p_rest :: "(string \<times> nat) list"

text \<open>Change flags are stored as reasons (strings or objects) and only ever tested for
  truthiness; they are modelled by their truth value.  A missing field is \<open>False\<close>.\<close>

record ChangeFlags =
  dataChanged :: bool
  propsChanged :: bool
  updateTriggersChanged :: bool
  viewportChanged :: bool
  propsOrDataChanged :: bool
  somethingChanged :: bool

text \<open>The argument objects of \<open>setChangeFlags\<close> carry the four primary flags.\<close>

record flagsArg =
  f_dataChanged :: bool
  f_propsChanged :: bool
  f_updateTriggersChanged :: bool
  f_viewportChanged :: bool

text \<open>The object handed to \<open>shouldUpdateState\<close> and \<open>updateState\<close>.  \<open>oldProps\<close> is \<open>None\<close>
  for the frozen empty object \<open>EMPTY_PROPS\<close>; the change flags are \<open>None\<close> when the internal
  state has no \<open>changeFlags\<close> member yet.  The two context members are opaque.\<close>

record updateParams =
  up_props :: layerProps
  up_oldProps :: "layerProps option"
  up_changeFlags :: "ChangeFlags option"

text \<open>
  The lifecycle methods that layer subclasses override are application code.  Each is
  modelled by what the reconciler can observe of it: whether it returns or throws
  (\<open>Some e\<close> is "throws \<open>e\<close>").  \<open>renderLayers\<close> stands for \<open>_renderLayers\<close> of composite
  layers, which is defined outside the sources at hand.
\<close>

record hooks =
  initializeState :: "error option"
  shouldUpdateState :: "updateParams \<Rightarrow> bool outcome"
  updateState :: "updateParams \<Rightarrow> error option"
  finalizeState :: "error option"
  renderLayers :: "error option"

text \<open>The default \<open>shouldUpdateState\<close> of the sources: \<open>changeFlags.propsOrDataChanged\<close>.\<close>

definition default_shouldUpdateState :: "updateParams \<Rightarrow> bool outcome" where
  "default_shouldUpdateState up =
     (case up_changeFlags up of
        None \<Rightarrow> Threw (TypeError ''changeFlags is undefined'')
      | Some cf \<Rightarrow> Returned (propsOrDataChanged cf))"

text \<open>A layer object as its constructor seals it.  \<open>layer_context\<close> tells whether \<open>context\<close>
  refers to the manager's context object or is still \<open>null\<close>.  \<open>instanceofLayer\<close> tells whether
  the object is an instance of class Layer, whose overrides of \<open>_initialize\<close> and
  \<open>_updateState\<close> then run in place of the methods of LayerObject.\<close>

record layer =
  props :: layerProps
  layer_id :: string
  oldProps :: "layerProps option"
  lifecycle :: LIFECYCLE
  layer_context :: bool
  state :: "sref option"
  internalState :: "iref option"
  isComposite :: bool
  instanceofLayer :: bool
  hooks :: hooks

text \<open>The \<open>state\<close> object: only its back reference \<open>state.layer\<close> is written by the core.\<close>

record stateObj =
  state_layer :: "ref option"

datatype loaded = DUndefined | DNull | DEmptyArray | DLoaded nat

fun loaded_truthy :: "loaded \<Rightarrow> bool" where
  "loaded_truthy DUndefined = False"
| "loaded_truthy DNull = False"
| "loaded_truthy DEmptyArray = True"
| "loaded_truthy (DLoaded d) = True"

text \<open>
  Class LayerState, with the members the lifecycle code adds to it (\<open>changeFlags\<close>, \<open>data\<close>,
  \<open>lastUrl\<close>, \<open>loadPromise\<close>).  The model, the statistics and the sub-layer cache belong to
  the rendering side and are not represented.  Neither is the attribute manager: the
  constructor refuses to build a LayerState without one, so every LayerState has one.
\<close>

record LayerState =
  needsRedraw :: jsval
  ls_layer :: "ref option"
  changeFlags :: "ChangeFlags option"
  ls_data :: loaded
  lastUrl :: "string option"
  ls_loadPromise :: bool
  asyncValues :: "string \<Rightarrow> pref option"

text \<open>One entry of \<open>asyncValues\<close>.\<close>

record asyncProp =
  lastValue :: "string option"
  loadValue :: "nat option"
  loadPromise :: bool
  loadCount :: nat
  ap_value :: loaded
  ap_data :: loaded

text \<open>A promise that has not resolved yet, with what its completion handler closes over:
  the layer for \<open>_loadData\<close>; the LayerState, the async record and the captured counter for
  \<open>_loadAsyncProp\<close>.\<close>

datatype load = DataLoad ref string | AsyncLoad iref pref nat string

text \<open>Warnings written to the log, and calls that leave the core (application hooks and
  \<open>fetch\<close>), in the order in which they happen.  Of the plain log lines the three that
  report a lifecycle step are recorded: "initializing", "matched" (old layer, new layer)
  and "finalizing".\<close>

datatype event =
    Log_initializing ref
  | Log_matched ref ref
  | Log_finalizing ref
  | Warn_multiple_old ref
  | Warn_multiple_new ref
  | Warn_matching ref error
  | Warn_initializing ref error
  | Warn_update ref error
  | Warn_finalization ref error
  | Call_initializeState ref
  | Call_updateState ref updateParams
  | Call_finalizeState ref
  | Call_renderLayers ref
  | Call_fetch string

record store =
  layerObjs :: "ref \<Rightarrow> layer"
  stateObjs :: "sref \<Rightarrow> stateObj"
  layerStates :: "iref \<Rightarrow> LayerState"
  asyncProps :: "pref \<Rightarrow> asyncProp"
  nextAddr :: nat
  trace :: "event list"
  pending :: "load list"

definition emit :: "event \<Rightarrow> store \<Rightarrow> store" where
  "emit e s = s\<lparr>trace := trace s @ [e]\<rparr>"

definition updLayer :: "ref \<Rightarrow> (layer \<Rightarrow> layer) \<Rightarrow> store \<Rightarrow> store" where
  "updLayer r f s = s\<lparr>layerObjs := (layerObjs s)(r := f (layerObjs s r))\<rparr>"

definition updLayerState :: "iref \<Rightarrow> (LayerState \<Rightarrow> LayerState) \<Rightarrow> store \<Rightarrow> store" where
  "updLayerState i f s = s\<lparr>layerStates := (layerStates s)(i := f (layerStates s i))\<rparr>"

definition updAsyncProp :: "pref \<Rightarrow> (asyncProp \<Rightarrow> asyncProp) \<Rightarrow> store \<Rightarrow> store" where
  "updAsyncProp p f s = s\<lparr>asyncProps := (asyncProps s)(p := f (asyncProps s p))\<rparr>"

section \<open>Class LayerObject\<close>

text \<open>
  Methods that can throw return an \<open>outcome\<close> together with the store as it is when they
  return or throw: an exception does not undo the assignments made before it.
  \<open>seq\<close> runs a continuation on the result of a step that returned and passes a throw on.
\<close>

definition seq ::
  "'a outcome \<times> store \<Rightarrow> ('a \<Rightarrow> store \<Rightarrow> 'b outcome \<times> store) \<Rightarrow> 'b outcome \<times> store" where
  "seq r k = (case r of (Threw e, s) \<Rightarrow> (Threw e, s) | (Returned x, s) \<Rightarrow> k x s)"

definition noFlags :: ChangeFlags where
  "noFlags = \<lparr>dataChanged = False, propsChanged = False, updateTriggersChanged = False,
     viewportChanged = False, propsOrDataChanged = False, somethingChanged = False\<rparr>"

text \<open>\<open>setNeedsRedraw(redraw = true)\<close>\<close>

definition LayerObject_setNeedsRedraw :: "ref \<Rightarrow> jsval \<Rightarrow> store \<Rightarrow> store" where
  "LayerObject_setNeedsRedraw r redraw s =
     (case internalState (layerObjs s r) of
        None \<Rightarrow> s
      | Some i \<Rightarrow> updLayerState i (\<lambda>ls. ls\<lparr>needsRedraw := redraw\<rparr>) s)"

text \<open>\<open>_getNeedsRedraw(clearRedrawFlags)\<close> of LayerObject\<close>

definition LayerObject_getNeedsRedraw :: "ref \<Rightarrow> bool \<Rightarrow> store \<Rightarrow> jsval \<times> store" where
  "LayerObject_getNeedsRedraw r clearRedrawFlags s =
     (case internalState (layerObjs s r) of
        None \<Rightarrow> (JBool False, s)
      | Some i \<Rightarrow>
          (let redraw = js_or (JBool False)
                 (js_and (needsRedraw (layerStates s i)) (JStr (layer_id (layerObjs s r))));
               s1 = updLayerState i
                 (\<lambda>ls. ls\<lparr>needsRedraw := js_and (needsRedraw ls) (JBool (\<not> clearRedrawFlags))\<rparr>) s
           in (redraw, s1)))"

text \<open>\<open>setChangeFlags(flags)\<close>: the four primary flags are sticky, the two derived flags
  accumulate.  Reading \<open>this.internalState.changeFlags\<close> of a layer without internal state is
  a TypeError.\<close>

definition setChangeFlags :: "ref \<Rightarrow> flagsArg \<Rightarrow> store \<Rightarrow> unit outcome \<times> store" where
  "setChangeFlags r flags s =
     (case internalState (layerObjs s r) of
        None \<Rightarrow> (Threw (TypeError ''internalState is null''), s)
      | Some i \<Rightarrow>
          (let c0 = (case changeFlags (layerStates s i) of None \<Rightarrow> noFlags | Some c \<Rightarrow> c);
               c1 = (if f_dataChanged flags \<and> \<not> dataChanged c0
                     then c0\<lparr>dataChanged := f_dataChanged flags\<rparr> else c0);
               c2 = (if f_updateTriggersChanged flags \<and> \<not> updateTriggersChanged c1
                     then c1\<lparr>updateTriggersChanged := f_updateTriggersChanged flags\<rparr> else c1);
               c3 = (if f_propsChanged flags \<and> \<not> propsChanged c2
                     then c2\<lparr>propsChanged := f_propsChanged flags\<rparr> else c2);
               c4 = (if f_viewportChanged flags \<and> \<not> viewportChanged c3
                     then c3\<lparr>viewportChanged := f_viewportChanged flags\<rparr> else c3);
               pod = (f_dataChanged flags \<or> f_updateTriggersChanged flags \<or> f_propsChanged flags);
               c5 = c4\<lparr>propsOrDataChanged := (propsOrDataChanged c4 \<or> pod)\<rparr>;
               c6 = c5\<lparr>somethingChanged := (somethingChanged c5 \<or> pod \<or> f_viewportChanged flags)\<rparr>
           in (Returned (), updLayerState i (\<lambda>ls. ls\<lparr>changeFlags := Some c6\<rparr>) s)))"

definition clearChangeFlags :: "ref \<Rightarrow> store \<Rightarrow> unit outcome \<times> store" where
  "clearChangeFlags r s =
     (case internalState (layerObjs s r) of
        None \<Rightarrow> (Threw (TypeError ''internalState is null''), s)
      | Some i \<Rightarrow> (Returned (), updLayerState i (\<lambda>ls. ls\<lparr>changeFlags := Some noFlags\<rparr>) s))"

text \<open>\<open>_loadData()\<close>: for a string-valued \<open>data\<close> that differs from \<open>lastUrl\<close> a fetch is
  started and its promise is left pending; the result tells whether a load was started.\<close>

definition loadData :: "ref \<Rightarrow> store \<Rightarrow> bool outcome \<times> store" where
  "loadData r s =
     (case p_data (props (layerObjs s r)) of
        Url url \<Rightarrow>
          (case internalState (layerObjs s r) of
             None \<Rightarrow> (Threw (TypeError ''internalState is null''), s)
           | Some i \<Rightarrow>
               (if lastUrl (layerStates s i) = Some url then (Returned False, s)
                else
                  (let s1 = updLayerState i (\<lambda>ls. ls\<lparr>
                         ls_data := (if loaded_truthy (ls_data ls) then ls_data ls else DEmptyArray),
                         lastUrl := Some url\<rparr>) s;
                       s2 = emit (Call_fetch url) s1;
                       s3 = s2\<lparr>pending := pending s2 @ [DataLoad r url]\<rparr>;
                       s4 = updLayerState i (\<lambda>ls. ls\<lparr>ls_loadPromise := True\<rparr>) s3
                   in (Returned True, s4))))
      | Inline d \<Rightarrow>
          (case internalState (layerObjs s r) of
             None \<Rightarrow> (Threw (TypeError ''internalState is null''), s)
           | Some i \<Rightarrow> (Returned False, updLayerState i (\<lambda>ls. ls\<lparr>ls_data := DNull\<rparr>) s)))"

text \<open>The completion handler of the promise made by \<open>_loadData\<close>, run with the loaded data.\<close>

definition loadData_then :: "ref \<Rightarrow> nat \<Rightarrow> store \<Rightarrow> unit outcome \<times> store" where
  "loadData_then r loadedData s =
     (case internalState (layerObjs s r) of
        None \<Rightarrow> (Threw (TypeError ''internalState is null''), s)
      | Some i \<Rightarrow>
          setChangeFlags r
            \<lparr>f_dataChanged = True, f_propsChanged = False, f_updateTriggersChanged = False,
              f_viewportChanged = False\<rparr>
            (updLayerState i (\<lambda>ls. ls\<lparr>ls_data := DLoaded loadedData\<rparr>) s))"

text \<open>\<open>_getUpdateParams()\<close>\<close>

definition getUpdateParams :: "ref \<Rightarrow> store \<Rightarrow> updateParams outcome \<times> store" where
  "getUpdateParams r s =
     (case internalState (layerObjs s r) of
        None \<Rightarrow> (Threw (TypeError ''internalState is null''), s)
      | Some i \<Rightarrow>
          (Returned \<lparr>up_props = props (layerObjs s r), up_oldProps = oldProps (layerObjs s r),
                      up_changeFlags = changeFlags (layerStates s i)\<rparr>, s))"

text \<open>\<open>_updateState(updateParams)\<close> of LayerObject: the call of the subclass method
  \<open>updateState\<close>.\<close>

definition LayerObject_updateState :: "ref \<Rightarrow> updateParams \<Rightarrow> store \<Rightarrow> unit outcome \<times> store" where
  "LayerObject_updateState r up s =
     (let s1 = emit (Call_updateState r up) s
      in case updateState (hooks (layerObjs s r)) up of
           Some e \<Rightarrow> (Threw e, s1)
         | None \<Rightarrow> (Returned (), s1))"

definition callRenderLayers :: "ref \<Rightarrow> store \<Rightarrow> unit outcome \<times> store" where
  "callRenderLayers r s =
     (if isComposite (layerObjs s r)
      then (let s1 = emit (Call_renderLayers r) s
            in case renderLayers (hooks (layerObjs s r)) of
                 Some e \<Rightarrow> (Threw e, s1)
               | None \<Rightarrow> (Returned (), s1))
      else (Returned (), s))"

text \<open>
  \<open>_updateState(updateParams)\<close> as class Layer overrides it.  After the subclass method it
  runs \<open>updateAttributes\<close>, which calls \<open>update\<close> on what \<open>getAttributeManager()\<close> gives, and
  that is \<open>null\<close> for a layer without internal state; then \<open>_updateBaseUniforms\<close>, which
  iterates over \<open>getModels()\<close> (\<open>null\<close> for a layer without state) and calls
  \<open>setNeedsRedraw()\<close>.  The calls into the attribute manager and the models return.
\<close>

definition Layer_updateState :: "ref \<Rightarrow> updateParams \<Rightarrow> store \<Rightarrow> unit outcome \<times> store" where
  "Layer_updateState r up s =
     seq (LayerObject_updateState r up s)
      (\<lambda>_ s1.
         case internalState (layerObjs s1 r) of
           None \<Rightarrow> (Threw (TypeError ''attributeManager is null''), s1)
         | Some i \<Rightarrow>
             (case state (layerObjs s1 r) of
                None \<Rightarrow> (Threw (TypeError ''getModels() is not iterable''), s1)
              | Some st \<Rightarrow> (Returned (), LayerObject_setNeedsRedraw r (JBool True) s1)))"

text \<open>The call \<open>this._updateState(updateParams)\<close>, resolved by the class of the object.\<close>

definition call_updateState :: "ref \<Rightarrow> updateParams \<Rightarrow> store \<Rightarrow> unit outcome \<times> store" where
  "call_updateState r up s =
     (if instanceofLayer (layerObjs s r) then Layer_updateState r up s
      else LayerObject_updateState r up s)"

text \<open>
  The constructor of LayerState, \<open>constructor({attributeManager})\<close>.  Its first statement is
  \<open>assert(attributeManager)\<close>; the argument of \<open>new_LayerState\<close> tells whether the object it is
  given has a truthy member \<open>attributeManager\<close>.  \<open>constructedLayerState\<close> holds the members as
  the constructor sets them.
\<close>

definition constructedLayerState :: LayerState where
  "constructedLayerState = \<lparr>needsRedraw = JBool True, ls_layer = None, changeFlags = None,
     ls_data = DUndefined, lastUrl = None, ls_loadPromise = False, asyncValues = (\<lambda>n. None)\<rparr>"

definition new_LayerState :: "bool \<Rightarrow> LayerState outcome" where
  "new_LayerState attributeManager =
     (if attributeManager then Returned constructedLayerState else Threw (AssertionError []))"

text \<open>
  \<open>_initialize()\<close> of LayerObject.  The internal state is made by \<open>new LayerState({})\<close>: the
  constructor is given an object without \<open>attributeManager\<close>.  The assignments to
  \<open>this.internalState\<close> and \<open>this.state\<close> happen only if the constructor returns.
\<close>

definition LayerObject_initialize :: "ref \<Rightarrow> store \<Rightarrow> unit outcome \<times> store" where
  "LayerObject_initialize r s =
     (if internalState (layerObjs s r) = None \<and> state (layerObjs s r) = None
      then
        (case new_LayerState False of
           Threw e \<Rightarrow> (Threw e, s)
         | Returned ls \<Rightarrow>
             (let a = nextAddr s;
                  s1 = s\<lparr>layerStates := (layerStates s)(a := ls),
                         stateObjs := (stateObjs s)(a := \<lparr>state_layer = None\<rparr>),
                         nextAddr := a + 1\<rparr>;
                  s2 = updLayer r (\<lambda>l. l\<lparr>internalState := Some a, state := Some a\<rparr>) s1;
                  s3 = emit (Call_initializeState r) s2
              in case initializeState (hooks (layerObjs s3 r)) of
                   Some e \<Rightarrow> (Threw e, s3)
                 | None \<Rightarrow>
                     seq (setChangeFlags r
                            \<lparr>f_dataChanged = True, f_propsChanged = True,
                              f_updateTriggersChanged = False, f_viewportChanged = True\<rparr> s3)
                      (\<lambda>_ s4. seq (loadData r s4)
                      (\<lambda>_ s5. seq (getUpdateParams r s5)
                      (\<lambda>up s6. seq (call_updateState r up s6)
                      (\<lambda>_ s7. seq (callRenderLayers r s7)
                      (\<lambda>_ s8. clearChangeFlags r s8)))))))
      else (Threw (AssertionError []), s))"

text \<open>
  \<open>_initialize()\<close> as class Layer overrides it.  It reads \<open>this.context.gl\<close> to create an
  attribute manager (an object of the rendering side, whose constructor and \<open>addInstanced\<close>
  return) and then calls \<open>super.initialize({attributeManager})\<close>.  LayerObject has no method
  \<open>initialize\<close>, so that call is a TypeError; the statements after it are never reached.
\<close>

definition Layer_initialize :: "ref \<Rightarrow> store \<Rightarrow> unit outcome \<times> store" where
  "Layer_initialize r s =
     (if layer_context (layerObjs s r)
      then (Threw (TypeError ''super.initialize is not a function''), s)
      else (Threw (TypeError ''context is null''), s))"

text \<open>The call \<open>layer._initialize()\<close>, resolved by the class of the object.\<close>

definition call_initialize :: "ref \<Rightarrow> store \<Rightarrow> unit outcome \<times> store" where
  "call_initialize r s =
     (if instanceofLayer (layerObjs s r) then Layer_initialize r s
      else LayerObject_initialize r s)"

text \<open>\<open>_update()\<close>\<close>

definition LayerObject_update :: "ref \<Rightarrow> store \<Rightarrow> unit outcome \<times> store" where
  "LayerObject_update r s =
     seq (getUpdateParams r s)
      (\<lambda>up s1.
         case shouldUpdateState (hooks (layerObjs s1 r)) up of
           Threw e \<Rightarrow> (Threw e, s1)
         | Returned stateNeedsUpdate \<Rightarrow>
             seq (if stateNeedsUpdate then call_updateState r up s1 else (Returned (), s1))
              (\<lambda>_ s2. seq (callRenderLayers r s2)
              (\<lambda>_ s3. clearChangeFlags r s3)))"

text \<open>\<open>_finalize()\<close>\<close>

definition LayerObject_finalize :: "ref \<Rightarrow> store \<Rightarrow> unit outcome \<times> store" where
  "LayerObject_finalize r s =
     (case (internalState (layerObjs s r), state (layerObjs s r)) of
        (Some i, Some st) \<Rightarrow>
          (let s1 = emit (Call_finalizeState r) s
           in case finalizeState (hooks (layerObjs s r)) of
                Some e \<Rightarrow> (Threw e, s1)
              | None \<Rightarrow> (Returned (), s1))
      | _ \<Rightarrow> (Threw (AssertionError []), s))"

text \<open>
  \<open>diffProps()\<close> of LayerObject.  The function \<open>diffProps\<close> that it imports from the props
  module is not part of the sources; it is the parameter \<open>dp\<close>, from the new and the old
  properties to the flags it reports.  The loop over the changed triggers only invalidates
  attributes of the attribute manager and has no counterpart here.
\<close>

type_synonym propsDiff = "layerProps \<Rightarrow> layerProps option \<Rightarrow> flagsArg"

definition LayerObject_diffProps :: "propsDiff \<Rightarrow> ref \<Rightarrow> store \<Rightarrow> unit outcome \<times> store" where
  "LayerObject_diffProps dp r s =
     (let flags = dp (props (layerObjs s r)) (oldProps (layerObjs s r))
      in if f_dataChanged flags
         then seq (loadData r s)
                (\<lambda>started s1.
                   setChangeFlags r (if started then flags\<lparr>f_dataChanged := False\<rparr> else flags) s1)
         else setChangeFlags r flags s)"

text \<open>\<open>_transferState(oldLayer)\<close>, called on the new layer \<open>this\<close>.\<close>

definition transferState :: "propsDiff \<Rightarrow> ref \<Rightarrow> ref \<Rightarrow> store \<Rightarrow> unit outcome \<times> store" where
  "transferState dp this oldLayer s =
     (case (state (layerObjs s oldLayer), internalState (layerObjs s oldLayer)) of
        (Some st, Some i) \<Rightarrow>
          (let oldP = props (layerObjs s oldLayer);
               s1 = s\<lparr>stateObjs := (stateObjs s)(st := (stateObjs s st)\<lparr>state_layer := Some this\<rparr>)\<rparr>;
               s2 = updLayer this
                      (\<lambda>l. l\<lparr>state := Some st, internalState := Some i, oldProps := Some oldP\<rparr>) s1
           in LayerObject_diffProps dp this s2)
      | _ \<Rightarrow> (Threw (AssertionError []), s))"

section \<open>Class LayerState: asynchronous properties\<close>

text \<open>\<open>getAsyncProp(propName, props)\<close>: the value a property displays.  \<open>shadow\<close> is
  \<open>props._shadowValues[propName]\<close>, which the props class (not in the sources) supplies.\<close>

definition getAsyncProp :: "iref \<Rightarrow> string \<Rightarrow> loaded \<Rightarrow> store \<Rightarrow> loaded" where
  "getAsyncProp i propName shadow s =
     (case asyncValues (layerStates s i) propName of
        Some p \<Rightarrow> ap_value (asyncProps s p)
      | None \<Rightarrow> shadow)"

text \<open>\<open>_getAsyncProp(propName, value)\<close>: the record of a property, created on first use.\<close>

definition getAsyncPropRecord :: "iref \<Rightarrow> string \<Rightarrow> store \<Rightarrow> pref \<times> store" where
  "getAsyncPropRecord i propName s =
     (case asyncValues (layerStates s i) propName of
        Some p \<Rightarrow> (p, s)
      | None \<Rightarrow>
          (let p = nextAddr s;
               s1 = s\<lparr>asyncProps := (asyncProps s)(p :=
                        \<lparr>lastValue = None, loadValue = None, loadPromise = False, loadCount = 0,
                          ap_value = DEmptyArray, ap_data = DUndefined\<rparr>),
                      nextAddr := p + 1\<rparr>
           in (p, updLayerState i (\<lambda>ls. ls\<lparr>asyncValues := (asyncValues ls)(propName := Some p)\<rparr>) s1)))"

text \<open>\<open>_loadAsyncProp({url, asyncProp, fetch, dataTransform})\<close>: the counter is
  incremented and captured, the fetch is started and its promise is left pending.\<close>

definition loadAsyncProp :: "iref \<Rightarrow> pref \<Rightarrow> string \<Rightarrow> store \<Rightarrow> store" where
  "loadAsyncProp i p url s =
     (let s1 = updAsyncProp p (\<lambda>a. a\<lparr>
                 ap_data := (if loaded_truthy (ap_data a) then ap_data a else DEmptyArray)\<rparr>) s;
          s2 = updAsyncProp p (\<lambda>a. a\<lparr>loadCount := loadCount a + 1\<rparr>) s1;
          count = loadCount (asyncProps s2 p);
          s3 = emit (Call_fetch url) s2;
          s4 = s3\<lparr>pending := pending s3 @ [AsyncLoad i p count url]\<rparr>
      in updAsyncProp p (\<lambda>a. a\<lparr>loadPromise := True\<rparr>) s4)"

text \<open>The completion handler of that promise, run with the fetched and transformed data.\<close>

definition loadAsyncProp_then :: "iref \<Rightarrow> pref \<Rightarrow> nat \<Rightarrow> nat \<Rightarrow> store \<Rightarrow> unit outcome \<times> store" where
  "loadAsyncProp_then i p count d s =
     (if count = loadCount (asyncProps s p)
      then
        (let s1 = updAsyncProp p
                    (\<lambda>a. a\<lparr>loadValue := Some d, loadPromise := False, ap_value := DLoaded d\<rparr>) s
         in case ls_layer (layerStates s1 i) of
              None \<Rightarrow> (Threw (TypeError ''layer is null''), s1)
            | Some r \<Rightarrow>
                setChangeFlags r
                  \<lparr>f_dataChanged = True, f_propsChanged = False,
                    f_updateTriggersChanged = False, f_viewportChanged = False\<rparr> s1)
      else (Returned (), s))"

text \<open>\<open>setAsyncProp(propName, value, props)\<close>; it returns \<open>false\<close> on every path.\<close>

definition setAsyncProp :: "iref \<Rightarrow> string \<Rightarrow> dataProp \<Rightarrow> store \<Rightarrow> store" where
  "setAsyncProp i propName v s =
     (case v of
        Url url \<Rightarrow>
          (case getAsyncPropRecord i propName s of
             (p, s1) \<Rightarrow>
               (if lastValue (asyncProps s1 p) = Some url then s1
                else loadAsyncProp i p url (updAsyncProp p (\<lambda>a. a\<lparr>lastValue := Some url\<rparr>) s1)))
      | Inline d \<Rightarrow> updLayerState i (\<lambda>ls. ls\<lparr>asyncValues := (asyncValues ls)(propName := None)\<rparr>) s)"

text \<open>A pending promise resolves: the \<open>k\<close>-th outstanding load completes with data \<open>d\<close> and
  its handler runs.  Promises may resolve in any order.\<close>

definition resolve :: "nat \<Rightarrow> nat \<Rightarrow> store \<Rightarrow> unit outcome \<times> store" where
  "resolve k d s =
     (if k < length (pending s)
      then
        (let s1 = s\<lparr>pending := take k (pending s) @ drop (k + 1) (pending s)\<rparr>
         in case pending s ! k of
              DataLoad r url \<Rightarrow> loadData_then r d s1
            | AsyncLoad i p count url \<Rightarrow> loadAsyncProp_then i p count d s1)
      else (Returned (), s))"

section \<open>Class Layer: redraw query\<close>

text \<open>
  \<open>_getNeedsRedraw\<close> as class Layer overrides it.  The attribute manager and the models are
  objects of the rendering library: \<open>amNeedsRedraw\<close> is what the attribute manager answers,
  \<open>models\<close> lists the id and the answer of each model of the layer.  \<open>getModels()\<close> is
  \<open>this.state && (...)\<close>, so it is \<open>null\<close> for a layer without state, and iterating over
  \<open>null\<close> is a TypeError.
\<close>

fun is_JStr :: "jsval \<Rightarrow> bool" where
  "is_JStr (JStr s) = True"
| "is_JStr _ = False"

definition Layer_getNeedsRedraw ::
  "jsval \<Rightarrow> (string \<times> jsval) list \<Rightarrow> ref \<Rightarrow> bool \<Rightarrow> store \<Rightarrow> jsval outcome \<times> store" where
  "Layer_getNeedsRedraw amNeedsRedraw models r clearRedrawFlags s =
     (case LayerObject_getNeedsRedraw r clearRedrawFlags s of
        (redraw0, s1) \<Rightarrow>
          (let attributeManagerNeedsRedraw =
                 (case internalState (layerObjs s1 r) of None \<Rightarrow> JNull | Some i \<Rightarrow> amNeedsRedraw);
               redraw1 = js_or redraw0 attributeManagerNeedsRedraw
           in case state (layerObjs s1 r) of
                None \<Rightarrow> (Threw (TypeError ''getModels() is not iterable''), s1)
              | Some st \<Rightarrow>
                  (Returned
                     (fold (\<lambda>(modelId, v) redraw.
                              js_or redraw
                                (if truthy v \<and> \<not> is_JStr v then JStr (''model '' @ modelId) else v))
                        models redraw1),
                   s1)))"

section \<open>Class LayerManager\<close>

record managerContext =
  viewport :: "nat option"

record LayerManager =
  lastRenderedLayers :: aref
  prevLayers :: "ref list"
  layers :: "ref list"
  mgr_context :: managerContext
  mgr_needsRedraw :: jsval

text \<open>\<open>layerName(layer)\<close> for a layer object; the class name is fixed to \<open>Layer\<close>.\<close>

definition layerName :: "layer \<Rightarrow> string" where
  "layerName l = ''Layer({id: '' @ [CHR 0x27] @ p_id (props l) @ [CHR 0x27] @ ''})''"

definition LayerManager_setNeedsRedraw :: "jsval \<Rightarrow> LayerManager \<Rightarrow> LayerManager" where
  "LayerManager_setNeedsRedraw reason m = m\<lparr>mgr_needsRedraw := js_or (mgr_needsRedraw m) reason\<rparr>"

text \<open>\<open>String.prototype.indexOf\<close>: the first position at which \<open>t\<close> occurs in \<open>s\<close>, or -1.\<close>

fun indexOf_from :: "nat \<Rightarrow> string \<Rightarrow> string \<Rightarrow> int" where
  "indexOf_from k [] t = (if t = [] then int k else - 1)"
| "indexOf_from k (c # s) t = (if prefix t (c # s) then int k else indexOf_from (k + 1) s t)"

definition indexOf :: "string \<Rightarrow> string \<Rightarrow> int" where
  "indexOf s t = indexOf_from 0 s t"

text \<open>\<open>getLayers({layerIds = null} = {})\<close>.  \<open>None\<close> is the absent filter; an array, even an
  empty one, is truthy.  \<open>Array.prototype.find\<close> returns the element it finds, and the
  filter callback keeps the layer when that element is truthy, that is a non-empty string.\<close>

definition getLayers :: "string list option \<Rightarrow> LayerManager \<Rightarrow> store \<Rightarrow> ref list" where
  "getLayers layerIds m s =
     (case layerIds of
        None \<Rightarrow> layers m
      | Some ids \<Rightarrow>
          filter
            (\<lambda>r. case find (\<lambda>layerId. indexOf (layer_id (layerObjs s r)) layerId = 0) ids of
                    None \<Rightarrow> False
                  | Some layerId \<Rightarrow> truthy (JStr layerId))
            (layers m))"

text \<open>\<open>_initializeLayer(layer)\<close>: the error of \<open>_initialize\<close> is caught and returned; the two
  statements after the \<open>try\<close> throw a TypeError on a layer without internal state or without
  state.\<close>

definition initializeLayer :: "ref \<Rightarrow> store \<Rightarrow> error option outcome \<times> store" where
  "initializeLayer r s =
     (case (case call_initialize r (emit (Log_initializing r) s) of
              (Returned u, s1) \<Rightarrow> (None, updLayer r (\<lambda>l. l\<lparr>lifecycle := INITIALIZED\<rparr>) s1)
            | (Threw e, s1) \<Rightarrow> (Some e, emit (Warn_initializing r e) s1)) of
        (err, s2) \<Rightarrow>
          (case internalState (layerObjs s2 r) of
             None \<Rightarrow> (Threw (TypeError ''internalState is null''), s2)
           | Some i \<Rightarrow>
               (let s3 = updLayerState i (\<lambda>ls. ls\<lparr>ls_layer := Some r\<rparr>) s2
                in case state (layerObjs s3 r) of
                     None \<Rightarrow> (Threw (TypeError ''getModels() is not iterable''), s3)
                   | Some st \<Rightarrow> (Returned err, s3))))"

text \<open>\<open>_transferLayerState(oldLayer, newLayer)\<close>\<close>

definition transferLayerState :: "propsDiff \<Rightarrow> ref \<Rightarrow> ref \<Rightarrow> store \<Rightarrow> unit outcome \<times> store" where
  "transferLayerState dp oldLayer newLayer s =
     (if newLayer = oldLayer
      then
        (let s1 = updLayer newLayer (\<lambda>l. l\<lparr>lifecycle := MATCHED\<rparr>) s
         in (Returned (), updLayer newLayer (\<lambda>l. l\<lparr>oldProps := Some (props l)\<rparr>) s1))
      else
        (let s0 = emit (Log_matched oldLayer newLayer) s;
             s1 = updLayer newLayer (\<lambda>l. l\<lparr>lifecycle := MATCHED\<rparr>) s0;
             s2 = updLayer oldLayer (\<lambda>l. l\<lparr>lifecycle := AWAITING_GC\<rparr>) s1
         in transferState dp newLayer oldLayer s2))"

text \<open>\<open>_updateLayer(layer)\<close>.  The log line evaluates \<open>layer.printChangeFlags()\<close> before the
  \<open>try\<close>; that reads the members of \<open>this.internalState.changeFlags\<close>.\<close>

definition updateLayer :: "ref \<Rightarrow> store \<Rightarrow> error option outcome \<times> store" where
  "updateLayer r s =
     (case internalState (layerObjs s r) of
        None \<Rightarrow> (Threw (TypeError ''internalState is null''), s)
      | Some i \<Rightarrow>
          (case changeFlags (layerStates s i) of
             None \<Rightarrow> (Threw (TypeError ''changeFlags is undefined''), s)
           | Some flags \<Rightarrow>
               (case LayerObject_update r s of
                  (Threw e, s1) \<Rightarrow> (Returned (Some e), emit (Warn_update r e) s1)
                | (Returned u, s1) \<Rightarrow> (Returned None, s1))))"

text \<open>\<open>_finalizeLayer(layer)\<close>\<close>

definition finalizeLayer ::
  "ref \<Rightarrow> LayerManager \<Rightarrow> store \<Rightarrow> error option outcome \<times> LayerManager \<times> store" where
  "finalizeLayer r m s =
     (if lifecycle (layerObjs s r) = AWAITING_FINALIZATION
      then (Threw (AssertionError []), m, s)
      else
        (let s1 = updLayer r (\<lambda>l. l\<lparr>lifecycle := AWAITING_FINALIZATION\<rparr>) s;
             m1 = LayerManager_setNeedsRedraw (JStr (''finalized '' @ layerName (layerObjs s1 r))) m
         in case (case LayerObject_finalize r s1 of
                    (Threw e, s2) \<Rightarrow> (Some e, emit (Warn_finalization r e) s2)
                  | (Returned u, s2) \<Rightarrow> (None, s2)) of
              (err, s3) \<Rightarrow>
                (Returned err, m1,
                 emit (Log_finalizing r) (updLayer r (\<lambda>l. l\<lparr>lifecycle := FINALIZED\<rparr>) s3))))"

subsection \<open>Matching\<close>

text \<open>
  The layers handed to the manager form a finite forest.  A node names the layer object and
  what its \<open>getSubLayers()\<close> does when it is called during the walk: it throws, or it returns
  the list of its sub-layers (an array, which is truthy even when it is empty).  Whether the
  method is called at all is decided by the \<open>isComposite\<close> member of the layer object.
\<close>

datatype desc = Desc ref subl
and subl = getSubLayers_throws error | getSubLayers_returns "desc list"

fun desc_ref :: "desc \<Rightarrow> ref" where
  "desc_ref (Desc r sub) = r"

text \<open>
  \<open>oldLayerMap\<close> is an object used as a dictionary from layer ids to a layer or \<open>null\<close>; a key
  that is absent reads as \<open>undefined\<close>.  It is kept as an association list in insertion
  order, which is the order in which \<open>for ... in\<close> enumerates keys that are not array
  indices; assigning to a key that exists keeps its position.  Layer ids are taken not to
  be names that every object inherits (such as \<open>constructor\<close>).
\<close>

type_synonym oldLayerMap = "(string \<times> ref option) list"

fun mapSet :: "string \<Rightarrow> ref option \<Rightarrow> oldLayerMap \<Rightarrow> oldLayerMap" where
  "mapSet k v [] = [(k, v)]"
| "mapSet k v ((k', v') # m) = (if k' = k then (k, v) # m else (k', v') # mapSet k v m)"

definition firstError :: "error option \<Rightarrow> error option \<Rightarrow> error option" where
  "firstError a b = (case a of Some e \<Rightarrow> Some e | None \<Rightarrow> b)"

text \<open>
  The first statement of the \<open>try\<close> block in the loop of \<open>_updateSublayersRecursively\<close>:
  a new layer without predecessor is initialized, a new layer with a predecessor takes
  over its state and is updated.  \<open>oldLayer\<close> is what the lookup in the candidate map gave:
  \<open>None\<close> for \<open>undefined\<close>, \<open>Some None\<close> for \<open>null\<close>.  The errors that \<open>_initializeLayer\<close> and
  \<open>_updateLayer\<close> return are not used.
\<close>

definition tryMatch :: "propsDiff \<Rightarrow> ref \<Rightarrow> ref option option \<Rightarrow> store \<Rightarrow> unit outcome \<times> store" where
  "tryMatch dp newLayer oldLayer s =
     (case oldLayer of
        Some (Some old) \<Rightarrow>
          seq (transferLayerState dp old newLayer s)
            (\<lambda>u s1. seq (updateLayer newLayer s1) (\<lambda>err s2. (Returned (), s2)))
      | _ \<Rightarrow> seq (initializeLayer newLayer s) (\<lambda>err s1. (Returned (), s1)))"

text \<open>
  One iteration of the loop of \<open>_updateSublayersRecursively\<close>, up to the recursive call.  The
  result is the exception caught in this iteration (if any), whether \<open>sublayers\<close> is truthy
  afterwards, and the candidate map, the \<open>generatedLayers\<close> array and the store.
\<close>

definition matchLayer ::
  "propsDiff \<Rightarrow> ref \<Rightarrow> subl \<Rightarrow> oldLayerMap \<times> ref list \<times> store
     \<Rightarrow> error option \<times> bool \<times> oldLayerMap \<times> ref list \<times> store" where
  "matchLayer dp newLayer sub st =
     (case st of (oldLayerMap, generatedLayers, s) \<Rightarrow>
       (let s1 = updLayer newLayer (\<lambda>l. l\<lparr>layer_context := True\<rparr>) s;
            key = layer_id (layerObjs s1 newLayer);
            oldLayer = map_of oldLayerMap key;
            s2 = (if oldLayer = Some None then emit (Warn_multiple_new newLayer) s1 else s1);
            m1 = mapSet key None oldLayerMap
        in case tryMatch dp newLayer oldLayer s2 of
             (Threw e, s5) \<Rightarrow> (Some e, False, m1, generatedLayers, emit (Warn_matching newLayer e) s5)
           | (Returned u, s5) \<Rightarrow>
               (if isComposite (layerObjs s5 newLayer)
                then (case sub of
                        getSubLayers_throws e \<Rightarrow>
                          (Some e, False, m1, generatedLayers @ [newLayer],
                           emit (Warn_matching newLayer e) s5)
                      | getSubLayers_returns sublayers \<Rightarrow>
                          (None, True, m1, generatedLayers @ [newLayer], s5))
                else (None, False, m1, generatedLayers @ [newLayer], s5))))"

text \<open>\<open>_updateSublayersRecursively({newLayers, oldLayerMap, generatedLayers})\<close>.  The value
  of the recursive call on the sub-layers is discarded, as in the source; the function
  returns the first exception caught in its own loop.\<close>

fun updateSublayersRecursively ::
  "propsDiff \<Rightarrow> desc list \<Rightarrow> oldLayerMap \<times> ref list \<times> store
     \<Rightarrow> error option \<times> oldLayerMap \<times> ref list \<times> store" where
  "updateSublayersRecursively dp [] st = (None, st)"
| "updateSublayersRecursively dp (Desc newLayer sub # rest) st =
     (case matchLayer dp newLayer sub st of
        (err, recurse, st1) \<Rightarrow>
          (let st2 = (case sub of
                        getSubLayers_returns sublayers \<Rightarrow>
                          (if recurse then snd (updateSublayersRecursively dp sublayers st1) else st1)
                      | getSubLayers_throws e \<Rightarrow> st1)
           in case updateSublayersRecursively dp rest st2 of
                (err', st3) \<Rightarrow> (firstError err err', st3)))"

text \<open>The first loop of \<open>_updateLayers\<close>: the map from ids to old layers.\<close>

fun createOldLayerMap :: "ref list \<Rightarrow> oldLayerMap \<times> store \<Rightarrow> oldLayerMap \<times> store" where
  "createOldLayerMap [] ms = ms"
| "createOldLayerMap (oldLayer # rest) (m, s) =
     (case map_of m (layer_id (layerObjs s oldLayer)) of
        Some (Some l) \<Rightarrow> createOldLayerMap rest (m, emit (Warn_multiple_old oldLayer) s)
      | _ \<Rightarrow> createOldLayerMap rest (mapSet (layer_id (layerObjs s oldLayer)) (Some oldLayer) m, s))"

text \<open>\<open>_finalizeOldLayers(oldLayerMap)\<close>; the second argument is the local \<open>error\<close>.  In
  \<open>error = error || this._finalizeLayer(layer)\<close> the call is not made once \<open>error\<close> is set.\<close>

fun finalizeOldLayers ::
  "oldLayerMap \<Rightarrow> error option \<Rightarrow> LayerManager \<Rightarrow> store
     \<Rightarrow> error option outcome \<times> LayerManager \<times> store" where
  "finalizeOldLayers [] error m s = (Returned error, m, s)"
| "finalizeOldLayers ((layerId, None) # rest) error m s = finalizeOldLayers rest error m s"
| "finalizeOldLayers ((layerId, Some l) # rest) (Some e) m s = finalizeOldLayers rest (Some e) m s"
| "finalizeOldLayers ((layerId, Some l) # rest) None m s =
     (case finalizeLayer l m s of
        (Threw e, m1, s1) \<Rightarrow> (Threw e, m1, s1)
      | (Returned error, m1, s1) \<Rightarrow> finalizeOldLayers rest error m1 s1)"

text \<open>\<open>_updateLayers({oldLayers, newLayers})\<close>\<close>

definition updateLayers ::
  "propsDiff \<Rightarrow> ref list \<Rightarrow> desc list \<Rightarrow> LayerManager \<Rightarrow> store
     \<Rightarrow> (error option \<times> ref list) outcome \<times> LayerManager \<times> store" where
  "updateLayers dp oldLayers newLayers m s =
     (case createOldLayerMap oldLayers ([], s) of
        (oldLayerMap, s1) \<Rightarrow>
          (case updateSublayersRecursively dp newLayers (oldLayerMap, [], s1) of
             (error, oldLayerMap', generatedLayers, s2) \<Rightarrow>
               (case finalizeOldLayers oldLayerMap' None m s2 of
                  (Threw e, m3, s3) \<Rightarrow> (Threw e, m3, s3)
                | (Returned error2, m3, s3) \<Rightarrow>
                    (Returned (firstError error error2, generatedLayers), m3, s3))))"

text \<open>
  Modelled from the spec: \<open>flatten\<close> of the utilities module is not part of the sources.  The
  specification says that \<open>setLayers\<close> "flattens nested/falsy entries out of the list": an
  entry of the array is a falsy value, a layer, or a nested array of entries.
\<close>

datatype entry = Falsy | Item desc | Nested "entry list"

fun flatten_entry :: "entry \<Rightarrow> desc list" where
  "flatten_entry Falsy = []"
| "flatten_entry (Item d) = [d]"
| "flatten_entry (Nested es) = concat (map flatten_entry es)"

definition flatten :: "entry list \<Rightarrow> desc list" where
  "flatten es = concat (map flatten_entry es)"

text \<open>
  \<open>setLayers(newLayers)\<close>.  The array is given by its identity \<open>newLayersRef\<close> and its present
  contents.  The first component of the result is the exception the call throws, \<open>None\<close>
  when it returns.
\<close>

definition setLayers ::
  "propsDiff \<Rightarrow> aref \<Rightarrow> entry list \<Rightarrow> LayerManager \<Rightarrow> store
     \<Rightarrow> error option \<times> LayerManager \<times> store" where
  "setLayers dp newLayersRef newLayers m s =
     (case viewport (mgr_context m) of
        None \<Rightarrow> (Some (AssertionError ''LayerManager.updateLayers: viewport not set''), m, s)
      | Some v \<Rightarrow>
          (if newLayersRef = lastRenderedLayers m then (None, m, s)
           else
             (let m1 = m\<lparr>lastRenderedLayers := newLayersRef\<rparr>;
                  flat = flatten newLayers;
                  s1 = fold (\<lambda>d. updLayer (desc_ref d) (\<lambda>l. l\<lparr>layer_context := True\<rparr>)) flat s;
                  m2 = m1\<lparr>prevLayers := layers m1\<rparr>
              in case updateLayers dp (prevLayers m2) flat m2 s1 of
                   (Threw e, m3, s3) \<Rightarrow> (Some e, m3, s3)
                 | (Returned (error, generatedLayers), m3, s3) \<Rightarrow>
                     (error, m3\<lparr>layers := generatedLayers\<rparr>, s3))))"

section \<open>Objects as their constructors leave them\<close>

text \<open>The constructor of class Layer, which is that of LayerObject: \<open>id\<close> is copied from the
  properties, \<open>oldProps\<close> is the empty object, the lifecycle is \<open>NO_STATE\<close>, and context, state
  and internal state are \<open>null\<close>.  The hooks and \<open>isComposite\<close> come with the subclass of the
  layer.\<close>

definition new_Layer :: "layerProps \<Rightarrow> hooks \<Rightarrow> bool \<Rightarrow> layer" where
  "new_Layer p h composite =
     \<lparr>props = p, layer_id = p_id p, oldProps = None, lifecycle = NO_STATE, layer_context = False,
      state = None, internalState = None, isComposite = composite, instanceofLayer = True,
      hooks = h\<rparr>"

text \<open>The constructor of LayerManager.  The initial \<open>lastRenderedLayers\<close> is a fresh array; it
  has identity 0, which no array of a caller has.\<close>

definition new_LayerManager :: LayerManager where
  "new_LayerManager =
     \<lparr>lastRenderedLayers = 0, prevLayers = [], layers = [],
      mgr_context = \<lparr>viewport = None\<rparr>, mgr_needsRedraw = JStr ''Initial render''\<rparr>"

text \<open>Hooks of a layer class whose lifecycle methods all return, with the inherited
  \<open>shouldUpdateState\<close>; and the same class with one method that throws.\<close>

definition plainHooks :: hooks where
  "plainHooks =
     \<lparr>initializeState = None, shouldUpdateState = default_shouldUpdateState,
      updateState = (\<lambda>up. None), finalizeState = None, renderLayers = None\<rparr>"

definition props_of :: "string \<Rightarrow> dataProp \<Rightarrow> nat \<Rightarrow> layerProps" where
  "props_of i d opacity = \<lparr>p_id = i, p_data = d, p_rest = [(''opacity'', opacity)]\<rparr>"

text \<open>A props comparison for the examples: \<open>data\<close> is compared with \<open>data\<close>, the remaining
  properties with the remaining properties, and nothing else is reported.\<close>

definition exampleDiff :: propsDiff where
  "exampleDiff newProps old =
     \<lparr>f_dataChanged = (map_option p_data old \<noteq> Some (p_data newProps)),
      f_propsChanged = (map_option p_rest old \<noteq> Some (p_rest newProps)),
      f_updateTriggersChanged = False, f_viewportChanged = False\<rparr>"

text \<open>A store that holds the given layer objects at addresses 1, 2, ... and nothing else.\<close>

definition store_of :: "layer list \<Rightarrow> store" where
  "store_of ls =
     \<lparr>layerObjs = (\<lambda>r. if 1 \<le> r \<and> r \<le> length ls then ls ! (r - 1)
                         else new_Layer (props_of [] (Inline 0) 0) plainHooks False),
      stateObjs = (\<lambda>a. \<lparr>state_layer = None\<rparr>),
      layerStates = (\<lambda>a. constructedLayerState),
      asyncProps = (\<lambda>a. \<lparr>lastValue = None, loadValue = None, loadPromise = False, loadCount = 0,
                            ap_value = DEmptyArray, ap_data = DUndefined\<rparr>),
      nextAddr = 0, trace = [], pending = []\<rparr>"

text \<open>A manager whose context has a viewport.\<close>

definition managerWithViewport :: LayerManager where
  "managerWithViewport = new_LayerManager\<lparr>mgr_context := \<lparr>viewport = Some 0\<rparr>\<rparr>"

definition managerWithLayers :: "ref list \<Rightarrow> LayerManager" where
  "managerWithLayers rs = managerWithViewport\<lparr>layers := rs\<rparr>"

section \<open>Statements of the specification that are compared with the code\<close>

text \<open>
  The specification's reading of the \<open>layerIds\<close> filter: a layer is selected by a filter
  string when its id is that string or begins with it followed by a separator.  Sub-layer
  ids are formed from the parent's id, a hyphen and a suffix, so the separator is the hyphen.
\<close>

definition spec_filter_selects :: "string \<Rightarrow> string \<Rightarrow> bool" where
  "spec_filter_selects layerId lid = (lid = layerId \<or> prefix (layerId @ ''-'') lid)"

text \<open>The flags a layer has when its first update runs inside \<open>_initialize\<close>.\<close>

definition initialFlags :: ChangeFlags where
  "initialFlags = \<lparr>dataChanged = True, propsChanged = True, updateTriggersChanged = False,
     viewportChanged = True, propsOrDataChanged = True, somethingChanged = True\<rparr>"

text \<open>The change flags that correspond to a props diff and to nothing else.\<close>

definition flagsOfDiff :: "flagsArg \<Rightarrow> ChangeFlags" where
  "flagsOfDiff d =
     \<lparr>dataChanged = f_dataChanged d, propsChanged = f_propsChanged d,
      updateTriggersChanged = f_updateTriggersChanged d, viewportChanged = f_viewportChanged d,
      propsOrDataChanged = (f_dataChanged d \<or> f_updateTriggersChanged d \<or> f_propsChanged d),
      somethingChanged = (f_dataChanged d \<or> f_updateTriggersChanged d \<or> f_propsChanged d
                          \<or> f_viewportChanged d)\<rparr>"

text \<open>Whether \<open>data\<close> is a URL other than the one the internal state loaded last, in which
  case \<open>diffProps\<close> starts a load and leaves \<open>dataChanged\<close> to the completion of that load.\<close>

definition startsLoad :: "layerProps \<Rightarrow> LayerState \<Rightarrow> bool" where
  "startsLoad p ls = (case p_data p of Url u \<Rightarrow> lastUrl ls \<noteq> Some u | Inline d \<Rightarrow> False)"

text \<open>Two stores agree on the lifecycle state, the state and internal state references and
  the id of every layer object.\<close>

definition sameLayers :: "store \<Rightarrow> store \<Rightarrow> bool" where
  "sameLayers s s' =
     (\<forall>x. lifecycle (layerObjs s' x) = lifecycle (layerObjs s x) \<and>
          internalState (layerObjs s' x) = internalState (layerObjs s x) \<and>
          state (layerObjs s' x) = state (layerObjs s x) \<and>
          layer_id (layerObjs s' x) = layer_id (layerObjs s x))"

section \<open>Notions for reasoning about the walk\<close>



text \<open>\<open>quiet s s'\<close>: from \<open>s\<close> to \<open>s'\<close> no layer object was written and the trace only grew.
  \<open>later R s s'\<close>: the trace only grew, no layer id changed, and the state and internal
  state references of the layers outside \<open>R\<close> are what they were.\<close>

definition quiet :: "store \<Rightarrow> store \<Rightarrow> bool" where
  "quiet s s' = (layerObjs s' = layerObjs s \<and> (\<exists>t. trace s' = trace s @ t))"



section \<open>Sequences of calls\<close>

text \<open>Successive calls of \<open>setLayers\<close>, each with a new array; the result lists what each
  call threw (\<open>None\<close> for a call that returned).\<close>

fun setLayersSeq ::
  "propsDiff \<Rightarrow> (aref \<times> entry list) list \<Rightarrow> LayerManager \<Rightarrow> store
     \<Rightarrow> error option list \<times> LayerManager \<times> store" where
  "setLayersSeq dp [] m s = ([], m, s)"
| "setLayersSeq dp ((a, es) # calls) m s =
     (case setLayers dp a es m s of
        (err, m1, s1) \<Rightarrow>
          (case setLayersSeq dp calls m1 s1 of
             (errs, m2, s2) \<Rightarrow> (err # errs, m2, s2)))"

text \<open>A layer without sub-layers as an entry of the array given to \<open>setLayers\<close>.\<close>

definition leaf :: "ref \<Rightarrow> entry" where
  "leaf r = Item (Desc r (getSubLayers_returns []))"

section \<open>Scenarios\<close>





text \<open>Two frames: a new layer with id \<open>a\<close>, then a new descriptor with the same id and a
  changed property.\<close>

definition twoFramesRun :: "error option list \<times> LayerManager \<times> store" where
  "twoFramesRun =
     setLayersSeq exampleDiff [(1, [leaf 1]), (2, [leaf 2])] managerWithViewport
       (store_of
         [new_Layer (props_of ''a'' (Inline 0) 1) plainHooks False,
          new_Layer (props_of ''a'' (Inline 0) 2) plainHooks False])"




section \<open>Evaluation of the model\<close>

lemmas model_defs =
  seq_def noFlags_def LayerObject_setNeedsRedraw_def LayerObject_getNeedsRedraw_def
  setChangeFlags_def clearChangeFlags_def loadData_def loadData_then_def getUpdateParams_def
  LayerObject_updateState_def Layer_updateState_def call_updateState_def callRenderLayers_def
  constructedLayerState_def new_LayerState_def LayerObject_initialize_def Layer_initialize_def
  call_initialize_def LayerObject_update_def LayerObject_finalize_def LayerObject_diffProps_def
  transferState_def getAsyncProp_def getAsyncPropRecord_def loadAsyncProp_def
  loadAsyncProp_then_def setAsyncProp_def resolve_def Layer_getNeedsRedraw_def layerName_def
  LayerManager_setNeedsRedraw_def indexOf_def getLayers_def initializeLayer_def
  transferLayerState_def updateLayer_def finalizeLayer_def firstError_def tryMatch_def
  matchLayer_def updateLayers_def flatten_def setLayers_def emit_def updLayer_def
  updLayerState_def updAsyncProp_def js_or_def js_and_def default_shouldUpdateState_def

lemmas example_defs =
  new_Layer_def new_LayerManager_def plainHooks_def props_of_def exampleDiff_def store_of_def
  managerWithViewport_def managerWithLayers_def leaf_def

section \<open>Picking colours\<close>

lemma int_and_255: "(x::int) AND 255 = x mod 256"
proof -
  have "x AND mask 8 = take_bit 8 x" by (simp only: take_bit_eq_mask)
  then show ?thesis by (simp add: take_bit_eq_mod mask_eq_exp_minus_1)
qed

lemma ToInt32_small: "0 \<le> x \<Longrightarrow> x < 2 ^ 31 \<Longrightarrow> ToInt32 x = x"
  by (simp add: ToInt32_def)

lemma ToInt32_big: "2 ^ 31 \<le> x \<Longrightarrow> x < 2 ^ 32 \<Longrightarrow> ToInt32 x = x - 2 ^ 32"
proof -
  assume a: "2 ^ 31 \<le> x" "x < 2 ^ 32"
  have "(x + 2 ^ 31) mod 2 ^ 32 = (x + 2 ^ 31 - 2 ^ 32) mod 2 ^ 32"
    by (simp only: minus_mod_self2)
  also have "\<dots> = x + 2 ^ 31 - 2 ^ 32"
    using a by (intro mod_pos_pos_trivial) auto
  finally show ?thesis by (simp add: ToInt32_def)
qed

lemma js_band_255: "0 \<le> y \<Longrightarrow> y < 2 ^ 31 \<Longrightarrow> js_band y 255 = y mod 256"
proof -
  assume a: "0 \<le> y" "y < 2 ^ 31"
  have "ToInt32 255 = 255" by (simp add: ToInt32_def)
  then show ?thesis unfolding js_band_def using ToInt32_small[OF a] by (simp only: int_and_255)
qed

lemma js_sar_8: "0 \<le> y \<Longrightarrow> y < 2 ^ 31 \<Longrightarrow> js_sar y 8 = y div 256"
  unfolding js_sar_def using ToInt32_small[of y] by simp

lemma js_sar_24: "0 \<le> y \<Longrightarrow> y < 2 ^ 31 \<Longrightarrow> js_sar y 24 = y div 2 ^ 24"
  unfolding js_sar_def using ToInt32_small[of y] by simp

lemma neg_byte: "- 128 \<le> (y::int) \<Longrightarrow> y < 0 \<Longrightarrow> y mod 256 = y + 256"
proof -
  assume a: "- 128 \<le> y" "y < 0"
  have "y mod 256 = (y + 256) mod 256" by simp
  also have "\<dots> = y + 256" using a by (intro mod_pos_pos_trivial) auto
  finally show ?thesis .
qed

lemma bytes_sum: "(y::int) mod 256 * 256 + y div 256 * 65536 = y * 256"
proof -
  have c: "y = y div 256 * 256 + y mod 256" by simp
  show ?thesis using c by linarith
qed

lemma encode_in_range:
  assumes "0 \<le> i" "i + 1 < 2 ^ 24"
  shows "encodePickingColor i = Inr [(i + 1) mod 256, (i + 1) div 256 mod 256, (i + 1) div 65536]"
proof -
  define x where "x = i + 1"
  have x: "0 \<le> x" "x < 2 ^ 31" "x < 2 ^ 24" using assms by (auto simp: x_def)
  have d8: "0 \<le> x div 256" "x div 256 < 2 ^ 31" using x by auto
  have d16: "0 \<le> x div 256 div 256" "x div 256 div 256 < 256" using x by auto
  then have d16': "x div 256 div 256 < 2 ^ 31" by simp
  have e: "x div 256 div 256 = x div 65536" by (simp add: div_mult2_eq[symmetric])
  have b0: "js_band x 255 = x mod 256" using x by (intro js_band_255)
  have s8: "js_sar x 8 = x div 256" using x by (intro js_sar_8)
  have b1: "js_band (x div 256) 255 = x div 256 mod 256" using d8 by (intro js_band_255)
  have s16: "js_sar (x div 256) 8 = x div 65536" using d8 e by (simp only: js_sar_8)
  have b2: "js_band (x div 65536) 255 = x div 65536"
  proof -
    have "js_band (x div 65536) 255 = x div 65536 mod 256"
      using d16 d16' unfolding e by (intro js_band_255)
    also have "\<dots> = x div 65536" using d16 unfolding e by simp
    finally show ?thesis .
  qed
  have s24: "js_sar x 24 = 0" using x by (simp add: js_sar_24)
  have z: "js_band 0 255 = 0" by (simp add: js_band_def ToInt32_def)
  show ?thesis
    unfolding encodePickingColor_def x_def[symmetric]
    by (simp only: s24 z b0 s8 b1 s16 b2, simp)
qed

lemma decode_bytes:
  assumes "0 \<le> i" "i + 1 < 2 ^ 24"
  shows "decodePickingColor (toUint8Array [(i + 1) mod 256, (i + 1) div 256 mod 256, (i + 1) div 65536])
         = Some i"
proof -
  define x where "x = i + 1"
  have x: "0 \<le> x" "x < 2 ^ 24" using assms by (auto simp: x_def)
  have u1: "uint (word_of_int (x mod 256) :: 8 word) = x mod 256"
    by (simp add: uint_word_of_int)
  have u2: "uint (word_of_int (x div 256 mod 256) :: 8 word) = x div 256 mod 256"
    by (simp add: uint_word_of_int)
  have d16: "0 \<le> x div 65536" "x div 65536 < 256" using x by auto
  have u3: "uint (word_of_int (x div 65536) :: 8 word) = x div 65536"
    using d16 by (simp add: uint_word_of_int)
  have a: "x div 65536 = x div 256 div 256" by (simp add: div_mult2_eq[symmetric])
  have b: "x div 256 mod 256 * 256 + x div 256 div 256 * 65536 = x div 256 * 256"
    by (rule bytes_sum)
  have c: "x = x div 256 * 256 + x mod 256" by simp
  have s: "x mod 256 + x div 256 mod 256 * 256 + x div 65536 * 65536 = x"
    unfolding a using b c by linarith
  have "decodePickingColor (toUint8Array [x mod 256, x div 256 mod 256, x div 65536]) = Some (x - 1)"
    unfolding toUint8Array_def using u1 u2 u3 s by simp
  then show ?thesis by (simp add: x_def)
qed

lemma encode_out_of_range:
  assumes "2 ^ 24 \<le> i + 1" "i + 1 < 2 ^ 32"
  shows "encodePickingColor i = Inl (AssertionError ''index out of picking color range'')"
proof -
  define x where "x = i + 1"
  have x: "2 ^ 24 \<le> x" "x < 2 ^ 32" using assms by (auto simp: x_def)
  have t255: "ToInt32 255 = 255" by (simp add: ToInt32_def)
  have nz: "ToInt32 (ToInt32 x div 2 ^ 24) mod 256 \<noteq> 0"
  proof (cases "x < 2 ^ 31")
    case True
    then have t: "ToInt32 x = x" using x by (intro ToInt32_small) auto
    have b: "1 \<le> x div 2 ^ 24" "x div 2 ^ 24 < 128" using x True by auto
    then have "ToInt32 (x div 2 ^ 24) = x div 2 ^ 24" by (intro ToInt32_small) auto
    then show ?thesis using t b by simp
  next
    case False
    then have t: "ToInt32 x = x - 2 ^ 32" using x by (intro ToInt32_big) auto
    define y where "y = (x - 2 ^ 32) div 2 ^ 24"
    have b: "- 128 \<le> y" "y < 0" using x False by (auto simp: y_def)
    have "ToInt32 y = y" using b unfolding ToInt32_def by simp
    moreover have "y mod 256 = y + 256" using b by (rule neg_byte)
    ultimately show ?thesis using t b by (simp add: y_def)
  qed
  have "js_band (js_sar x 24) 255 \<noteq> 0"
    unfolding js_band_def js_sar_def using nz t255 by (simp add: int_and_255)
  then show ?thesis
    unfolding encodePickingColor_def x_def[symmetric] by simp
qed

text \<open>
  Claim C9 (picking-colour round trip), as amended.  For every index \<open>i\<close> with
  \<open>0 \<le> i\<close> and \<open>i + 1 < 2^32\<close>: if \<open>i + 1 < 2^24\<close> then \<open>encodePickingColor i\<close> returns three
  bytes from which \<open>decodePickingColor\<close> recovers \<open>i\<close>; otherwise \<open>encodePickingColor i\<close> fails its
  assertion.  (Beyond \<open>2^32\<close> the 32-bit operators of the check wrap around.)
\<close>

theorem picking_color_roundtrip_32bit:
  assumes "0 \<le> i" and "i + 1 < 2 ^ 32"
  shows "if i + 1 < 2 ^ 24
         then (\<exists>c. encodePickingColor i = Inr c \<and> decodePickingColor (toUint8Array c) = Some i)
         else encodePickingColor i = Inl (AssertionError ''index out of picking color range'')"
proof (cases "i + 1 < 2 ^ 24")
  case True
  then show ?thesis
    using encode_in_range[OF assms(1) True] decode_bytes[OF assms(1) True] by simp
next
  case False
  then have "2 ^ 24 \<le> i + 1" by simp
  from encode_out_of_range[OF this assms(2)] False show ?thesis by simp
qed

theorem picking_color_roundtrip_32bit_witness:
  "(0::int) \<le> 70000 \<and> (70000::int) + 1 < 2 ^ 32 \<and> (70000::int) + 1 < 2 ^ 24 \<and>
   (\<exists>c. encodePickingColor 70000 = Inr c \<and> decodePickingColor (toUint8Array c) = Some 70000)"
  using picking_color_roundtrip_32bit[of 70000] by simp

text \<open>
  Claim C9 as stated fails at the index \<open>2^32\<close>: it lies outside the range \<open>i + 1 < 2^24\<close>, yet the
  assertion passes and a colour is returned, and decoding that colour gives 0, not the index.
\<close>

theorem picking_color_wraps_at_2_32:
  "encodePickingColor 4294967296 = Inr [1, 0, 0] \<and>
   decodePickingColor (toUint8Array [1, 0, 0]) = Some 0 \<and>
   \<not> ((4294967296::int) + 1 < 2 ^ 24)"
  by (simp add: encodePickingColor_def js_band_def js_sar_def ToInt32_def toUint8Array_def)

section \<open>Filtering the live list\<close>

lemma indexOf_from_range: "indexOf_from k s t = - 1 \<or> int k \<le> indexOf_from k s t"
  by (induction k s t rule: indexOf_from.induct) auto

lemma indexOf_from_start: "(indexOf_from k s t = int k) = prefix t s"
proof (cases s)
  case Nil
  then show ?thesis by simp
next
  case (Cons c s')
  show ?thesis
  proof (cases "prefix t (c # s')")
    case True
    then show ?thesis using Cons by simp
  next
    case False
    have "indexOf_from (k + 1) s' t \<noteq> int k"
      using indexOf_from_range[of "k + 1" s' t] by auto
    then show ?thesis using Cons False by simp
  qed
qed

lemma indexOf_zero: "(indexOf s t = 0) = prefix t s"
  unfolding indexOf_def using indexOf_from_start[of 0 s t] by simp

lemma find_nonempty:
  "[] \<notin> set ids \<Longrightarrow>
   (case find P ids of None \<Rightarrow> False | Some (layerId::string) \<Rightarrow> truthy (JStr layerId)) = list_ex P ids"
  by (induction ids) auto

text \<open>
  Claim C8 (\<open>getLayers\<close> filtering), as amended.  With no filter the full live list is
  returned.  With a filter of non-empty strings the result consists of exactly the live
  layers whose id begins with one of the filter strings, in the order of the live list; no
  separator is required after the filter string.
\<close>

theorem getLayers_selects_by_prefix:
  assumes "[] \<notin> set ids"
  shows "getLayers None m s = layers m \<and>
         getLayers (Some ids) m s =
           filter (\<lambda>r. list_ex (\<lambda>layerId. prefix layerId (layer_id (layerObjs s r))) ids) (layers m)"
  using assms by (simp add: getLayers_def indexOf_zero find_nonempty)

theorem getLayers_selects_by_prefix_witness:
  "[] \<notin> set [''a''] \<and>
   getLayers None (managerWithLayers [1, 2, 3])
     (store_of [new_Layer (props_of ''a'' (Inline 0) 1) plainHooks True,
                new_Layer (props_of ''a-points'' (Inline 0) 1) plainHooks False,
                new_Layer (props_of ''b'' (Inline 0) 1) plainHooks False]) = [1, 2, 3] \<and>
   getLayers (Some [''a'']) (managerWithLayers [1, 2, 3])
     (store_of [new_Layer (props_of ''a'' (Inline 0) 1) plainHooks True,
                new_Layer (props_of ''a-points'' (Inline 0) 1) plainHooks False,
                new_Layer (props_of ''b'' (Inline 0) 1) plainHooks False]) = [1, 2]"
  using getLayers_selects_by_prefix[of "[''a'']" "managerWithLayers [1, 2, 3]"
    "store_of [new_Layer (props_of ''a'' (Inline 0) 1) plainHooks True,
               new_Layer (props_of ''a-points'' (Inline 0) 1) plainHooks False,
               new_Layer (props_of ''b'' (Inline 0) 1) plainHooks False]"]
  by (simp add: example_defs)

text \<open>
  Claim C8 as stated fails for the filter \<open>ab\<close> and a live layer with id \<open>abc\<close>: the layer is
  returned although its id neither equals the filter string nor continues it with a
  separator.
\<close>

theorem getLayers_needs_no_separator:
  "getLayers (Some [''ab'']) (managerWithLayers [1])
     (store_of [new_Layer (props_of ''abc'' (Inline 0) 1) plainHooks False]) = [1] \<and>
   \<not> spec_filter_selects ''ab'' ''abc''"
  by (simp add: getLayers_def indexOf_def example_defs spec_filter_selects_def)

section \<open>Redraw queries before initialization\<close>

text \<open>The two methods of LayerObject are safe on a layer without internal state.\<close>

lemma LayerObject_redraw_queries_without_internalState:
  assumes "internalState (layerObjs s r) = None"
  shows "LayerObject_getNeedsRedraw r clearRedrawFlags s = (JBool False, s)"
    and "LayerObject_setNeedsRedraw r redraw s = s"
  using assms by (simp_all add: LayerObject_getNeedsRedraw_def LayerObject_setNeedsRedraw_def)

text \<open>
  Claim C10 (redraw queries before initialization are safe) fails for the layers the
  manager handles, which are instances of class Layer.  For a freshly constructed layer
  \<open>getNeedsRedraw\<close> runs the override of class Layer: the guard of the base class returns
  \<open>false\<close>, but the override goes on to iterate over \<open>this.getModels()\<close>, which is \<open>null\<close> while
  the layer has no state, and that throws a TypeError.
\<close>

theorem Layer_getNeedsRedraw_throws_before_initialize:
  "Layer_getNeedsRedraw amNeedsRedraw models 1 clearRedrawFlags (store_of [new_Layer p h composite])
   = (Threw (TypeError ''getModels() is not iterable''), store_of [new_Layer p h composite])"
  by (simp add: Layer_getNeedsRedraw_def LayerObject_getNeedsRedraw_def store_of_def new_Layer_def
      js_or_def)

section \<open>Re-submission of the same array\<close>

lemma finalizeLayer_manager:
  "finalizeLayer r m s = (res, m', s') \<Longrightarrow>
   lastRenderedLayers m' = lastRenderedLayers m \<and> mgr_context m' = mgr_context m"
  by (auto simp: finalizeLayer_def LayerManager_setNeedsRedraw_def Let_def
      split: if_splits prod.splits)

lemma finalizeOldLayers_manager:
  "finalizeOldLayers om e m s = (res, m', s') \<Longrightarrow>
   lastRenderedLayers m' = lastRenderedLayers m \<and> mgr_context m' = mgr_context m"
proof (induction om e m s arbitrary: res m' s' rule: finalizeOldLayers.induct)
  case (4 layerId l rest m s)
  obtain r1 m1 s1 where f: "finalizeLayer l m s = (r1, m1, s1)" by (cases "finalizeLayer l m s") auto
  note fm = finalizeLayer_manager[OF f]
  show ?case
  proof (cases r1)
    case (Threw e)
    with "4.prems" f fm show ?thesis by simp
  next
    case (Returned err)
    with "4.prems" f have "finalizeOldLayers rest err m1 s1 = (res, m', s')" by simp
    from "4.IH"[OF f[symmetric] _ _ this] Returned fm show ?thesis by simp
  qed
qed auto

lemma updateLayers_manager:
  "updateLayers dp old new m s = (res, m', s') \<Longrightarrow>
   lastRenderedLayers m' = lastRenderedLayers m \<and> mgr_context m' = mgr_context m"
  unfolding updateLayers_def
  by (auto split: prod.splits outcome.splits dest: finalizeOldLayers_manager)

lemma setLayers_records_array:
  assumes "viewport (mgr_context m) \<noteq> None" and "setLayers dp a es m s = (err, m', s')"
  shows "lastRenderedLayers m' = a \<and> mgr_context m' = mgr_context m"
proof (cases "a = lastRenderedLayers m")
  case True
  with assms show ?thesis by (auto simp: setLayers_def)
next
  case False
  with assms show ?thesis
    unfolding setLayers_def
    by (auto simp: Let_def split: prod.splits outcome.splits option.splits dest!: updateLayers_manager)
qed

text \<open>
  Claim C4 (idempotent re-submission).  When the context has a viewport, a call of
  \<open>setLayers\<close> with the array that the preceding call was given returns without throwing and
  leaves the manager and the whole store as they are: the live list, every layer's
  lifecycle state and change flags, and the trace of warnings and hook calls (so no
  matching work is done).  This holds whatever the array contains at the second call, and
  also when the preceding call ended by raising a layer error.
\<close>

theorem setLayers_same_array_is_noop:
  assumes "viewport (mgr_context m) \<noteq> None"
  shows "case setLayers dp a es m s of
           (err, m', s') \<Rightarrow> setLayers dp a es' m' s' = (None, m', s')"
proof -
  obtain err m' s' where r: "setLayers dp a es m s = (err, m', s')"
    by (cases "setLayers dp a es m s") auto
  from setLayers_records_array[OF assms r]
  have "lastRenderedLayers m' = a" "viewport (mgr_context m') \<noteq> None" using assms by auto
  then have "setLayers dp a es' m' s' = (None, m', s')"
    by (auto simp: setLayers_def)
  with r show ?thesis by simp
qed

theorem setLayers_same_array_is_noop_witness:
  "viewport (mgr_context managerWithViewport) \<noteq> None \<and>
   (case setLayers exampleDiff 1 [leaf 1] managerWithViewport
           (store_of [new_Layer (props_of ''a'' (Inline 0) 1) plainHooks False]) of
      (err, m', s') \<Rightarrow> setLayers exampleDiff 1 [] m' s' = (None, m', s'))"
  using setLayers_same_array_is_noop[where m = managerWithViewport and dp = exampleDiff
    and a = 1 and es = "[leaf 1]" and es' = "[]"
    and s = "store_of [new_Layer (props_of ''a'' (Inline 0) 1) plainHooks False]"]
  by (simp add: managerWithViewport_def new_LayerManager_def)

section \<open>Initialization of new layers\<close>

text \<open>
  \<open>_initialize\<close> never returns.  For a plain LayerObject the constructor of LayerState fails
  its assertion, because it is called without an attribute manager; for an instance of class
  Layer the override calls \<open>super.initialize\<close>, which does not exist.  Either way the store is
  left as it was: no internal state is allocated and no hook is called.
\<close>

lemma call_initialize_throws: "\<exists>e. call_initialize r s = (Threw e, s)"
  by (simp add: call_initialize_def Layer_initialize_def LayerObject_initialize_def
      new_LayerState_def)

lemma initializeLayer_without_internalState:
  assumes "internalState (layerObjs s r) = None"
  shows "\<exists>e. initializeLayer r s =
           (Threw (TypeError ''internalState is null''),
            emit (Warn_initializing r e) (emit (Log_initializing r) s))"
proof -
  obtain e where e: "call_initialize r (emit (Log_initializing r) s)
                       = (Threw e, emit (Log_initializing r) s)"
    using call_initialize_throws by blast
  have "initializeLayer r s =
           (Threw (TypeError ''internalState is null''),
            emit (Warn_initializing r e) (emit (Log_initializing r) s))"
    using assms unfolding initializeLayer_def e by (simp add: emit_def)
  then show ?thesis by blast
qed

lemma finalizeOldLayers_no_candidates:
  "\<forall>v \<in> snd ` set om. v = None \<Longrightarrow> finalizeOldLayers om e m s = (Returned e, m, s)"
  by (induction om e m s rule: finalizeOldLayers.induct) auto


lemma mapSet_value: "(a, x) \<in> set (mapSet k v m) \<Longrightarrow> x = v \<or> x \<in> snd ` set m"
  by (induction m) (force split: if_splits)+

lemma mapSet_None_values:
  "\<forall>v \<in> snd ` set om. v = None \<Longrightarrow> \<forall>v \<in> snd ` set (mapSet k None om). v = None"
  using mapSet_value by fastforce

lemma map_of_no_candidates:
  "\<forall>v \<in> snd ` set om. v = None \<Longrightarrow> map_of om k \<noteq> Some (Some q)"
  by (induction om) auto

lemma matchLayer_eq:
  fixes dp new sub m g s
  defines "k \<equiv> layer_id (layerObjs s new)"
  defines "s2 \<equiv> (if map_of m k = Some None
                   then emit (Warn_multiple_new new) (updLayer new (\<lambda>l. l\<lparr>layer_context := True\<rparr>) s)
                   else updLayer new (\<lambda>l. l\<lparr>layer_context := True\<rparr>) s)"
  shows "matchLayer dp new sub (m, g, s) =
     (case tryMatch dp new (map_of m k) s2 of
        (Threw e, s5) \<Rightarrow> (Some e, False, mapSet k None m, g, emit (Warn_matching new e) s5)
      | (Returned u, s5) \<Rightarrow>
          (if isComposite (layerObjs s5 new)
           then (case sub of
                   getSubLayers_throws e \<Rightarrow>
                     (Some e, False, mapSet k None m, g @ [new], emit (Warn_matching new e) s5)
                 | getSubLayers_returns sublayers \<Rightarrow> (None, True, mapSet k None m, g @ [new], s5))
           else (None, False, mapSet k None m, g @ [new], s5)))"
proof -
  have key: "layer_id (layerObjs (updLayer new (\<lambda>l. l\<lparr>layer_context := True\<rparr>) s) new) = k"
    by (simp add: updLayer_def k_def)
  show ?thesis
    unfolding matchLayer_def Let_def prod.case key s2_def ..
qed

lemma matchLayer_without_state:
  assumes "\<forall>v \<in> snd ` set om. v = None"
    and "internalState (layerObjs s r) = None"
  shows "\<exists>om' s'. matchLayer dp r sub (om, g, s)
            = (Some (TypeError ''internalState is null''), False, om', g, s') \<and>
          (\<forall>v \<in> snd ` set om'. v = None) \<and> sameLayers s s'"
proof -
  define k where "k = layer_id (layerObjs s r)"
  define s2 where "s2 = (if map_of om k = Some None
                   then emit (Warn_multiple_new r) (updLayer r (\<lambda>l. l\<lparr>layer_context := True\<rparr>) s)
                   else updLayer r (\<lambda>l. l\<lparr>layer_context := True\<rparr>) s)"
  have i2: "internalState (layerObjs s2 r) = None"
    using assms(2) by (simp add: s2_def updLayer_def emit_def)
  obtain e where e: "initializeLayer r s2 =
           (Threw (TypeError ''internalState is null''),
            emit (Warn_initializing r e) (emit (Log_initializing r) s2))"
    using initializeLayer_without_internalState[OF i2] by blast
  have nc: "map_of om k \<noteq> Some (Some q)" for q using map_of_no_candidates[OF assms(1)] by blast
  have t: "tryMatch dp r (map_of om k) s2 =
           (Threw (TypeError ''internalState is null''),
            emit (Warn_initializing r e) (emit (Log_initializing r) s2))"
  proof (cases "map_of om k")
    case None
    then show ?thesis by (simp add: tryMatch_def e seq_def)
  next
    case (Some v)
    with nc have "v = None" by (cases v) auto
    with Some show ?thesis by (simp add: tryMatch_def e seq_def)
  qed
  define s' where "s' = emit (Warn_matching r (TypeError ''internalState is null''))
                (emit (Warn_initializing r e) (emit (Log_initializing r) s2))"
  have m: "matchLayer dp r sub (om, g, s) =
             (Some (TypeError ''internalState is null''), False, mapSet k None om, g, s')"
    unfolding matchLayer_eq k_def[symmetric] s2_def[symmetric] t s'_def by simp
  have sl: "sameLayers s s'"
    by (simp add: s'_def sameLayers_def s2_def emit_def updLayer_def)
  show ?thesis
    by (intro exI[where x = "mapSet k None om"] exI[where x = s'] conjI m sl
        mapSet_None_values[OF assms(1)])
qed

lemma sameLayers_trans: "sameLayers s s1 \<Longrightarrow> sameLayers s1 s2 \<Longrightarrow> sameLayers s s2"
  by (simp add: sameLayers_def)

lemma walk_without_state:
  assumes "\<forall>v \<in> snd ` set om. v = None"
    and "\<forall>d \<in> set ds. internalState (layerObjs s (desc_ref d)) = None"
  shows "\<exists>om' s'. updateSublayersRecursively dp ds (om, g, s)
            = ((if ds = [] then None else Some (TypeError ''internalState is null'')), om', g, s') \<and>
          (\<forall>v \<in> snd ` set om'. v = None) \<and> sameLayers s s'"
  using assms
proof (induction ds arbitrary: om s)
  case Nil
  then show ?case by (simp add: sameLayers_def)
next
  case (Cons d ds)
  obtain r sub where d: "d = Desc r sub" by (cases d) auto
  from Cons.prems(2) d have ir: "internalState (layerObjs s r) = None" by simp
  obtain om1 s1 where m: "matchLayer dp r sub (om, g, s)
            = (Some (TypeError ''internalState is null''), False, om1, g, s1)"
    and om1: "\<forall>v \<in> snd ` set om1. v = None" and sl: "sameLayers s s1"
    using matchLayer_without_state[OF Cons.prems(1) ir] by blast
  have rest: "\<forall>d \<in> set ds. internalState (layerObjs s1 (desc_ref d)) = None"
    using Cons.prems(2) sl by (simp add: sameLayers_def)
  obtain om2 s2 where w: "updateSublayersRecursively dp ds (om1, g, s1)
            = ((if ds = [] then None else Some (TypeError ''internalState is null'')), om2, g, s2)"
    and om2: "\<forall>v \<in> snd ` set om2. v = None" and sl2: "sameLayers s1 s2"
    using Cons.IH[OF om1 rest] by blast
  have "updateSublayersRecursively dp (d # ds) (om, g, s)
          = (Some (TypeError ''internalState is null''), om2, g, s2)"
    using m w by (cases sub) (simp_all add: d firstError_def)
  with om2 sameLayers_trans[OF sl sl2] show ?case by auto
qed

lemma fold_context_sameLayers:
  "sameLayers s (fold (\<lambda>d. updLayer (desc_ref d) (\<lambda>l. l\<lparr>layer_context := True\<rparr>)) ds s)"
proof (induction ds arbitrary: s)
  case Nil
  show ?case by (simp add: sameLayers_def)
next
  case (Cons d ds)
  have "sameLayers s (updLayer (desc_ref d) (\<lambda>l. l\<lparr>layer_context := True\<rparr>) s)"
    by (simp add: sameLayers_def updLayer_def)
  from sameLayers_trans[OF this Cons.IH] show ?case by simp
qed

lemma setLayers_without_live_layers:
  assumes "viewport (mgr_context m) \<noteq> None" and "a \<noteq> lastRenderedLayers m"
    and "layers m = []"
    and "\<forall>d \<in> set (flatten es). internalState (layerObjs s (desc_ref d)) = None"
  shows "\<exists>m' s'. setLayers dp a es m s =
           ((if flatten es = [] then None else Some (TypeError ''internalState is null'')), m', s') \<and>
         layers m' = [] \<and> mgr_context m' = mgr_context m \<and> sameLayers s s'"
proof -
  define s1 where "s1 = fold (\<lambda>d. updLayer (desc_ref d) (\<lambda>l. l\<lparr>layer_context := True\<rparr>)) (flatten es) s"
  have sl1: "sameLayers s s1" unfolding s1_def by (rule fold_context_sameLayers)
  have st: "\<forall>d \<in> set (flatten es). internalState (layerObjs s1 (desc_ref d)) = None"
    using assms(4) sl1 by (simp add: sameLayers_def)
  obtain om' s2 where w: "updateSublayersRecursively dp (flatten es) ([], [], s1)
            = ((if flatten es = [] then None else Some (TypeError ''internalState is null'')), om', [], s2)"
    and om': "\<forall>v \<in> snd ` set om'. v = None" and sl2: "sameLayers s1 s2"
    using walk_without_state[of "[]" "flatten es" s1 dp "[]"] st by auto
  obtain v where v: "viewport (mgr_context m) = Some v" using assms(1) by auto
  have "setLayers dp a es m s =
           ((if flatten es = [] then None else Some (TypeError ''internalState is null'')),
            m\<lparr>lastRenderedLayers := a, prevLayers := [], layers := []\<rparr>, s2)"
    using assms(2,3) v
    by (simp add: setLayers_def Let_def s1_def[symmetric] updateLayers_def w
        finalizeOldLayers_no_candidates[OF om'] firstError_def)
  with sameLayers_trans[OF sl1 sl2] show ?thesis by auto
qed

lemma no_layer_ever_goes_live:
  assumes "viewport (mgr_context m) \<noteq> None" and "layers m = []"
    and "\<forall>x. internalState (layerObjs s x) = None"
  shows "case setLayersSeq dp calls m s of
           (errs, m', s') \<Rightarrow> layers m' = [] \<and> sameLayers s s'"
  using assms
proof (induction calls arbitrary: m s)
  case Nil
  then show ?case by (simp add: sameLayers_def)
next
  case (Cons c calls)
  obtain a es where c: "c = (a, es)" by (cases c) auto
  have "\<exists>err m1 s1. setLayers dp a es m s = (err, m1, s1) \<and> layers m1 = [] \<and>
          mgr_context m1 = mgr_context m \<and> sameLayers s s1"
  proof (cases "a = lastRenderedLayers m")
    case True
    with Cons.prems show ?thesis by (auto simp: setLayers_def sameLayers_def)
  next
    case False
    from setLayers_without_live_layers[OF Cons.prems(1) False Cons.prems(2), of es s dp] Cons.prems(3)
    show ?thesis by auto
  qed
  then obtain err m1 s1 where one: "setLayers dp a es m s = (err, m1, s1)" "layers m1 = []"
    "mgr_context m1 = mgr_context m" "sameLayers s s1" by blast
  have p3: "\<forall>x. internalState (layerObjs s1 x) = None" using one(4) Cons.prems(3) by (simp add: sameLayers_def)
  have p1: "viewport (mgr_context m1) \<noteq> None" using one(3) Cons.prems(1) by simp
  from Cons.IH[OF p1 one(2) p3] one(1,4) c show ?case
    by (auto split: prod.splits dest: sameLayers_trans)
qed

text \<open>
  Claim C7 (fresh versus matched transitions) fails on the code for every new layer.
  \<open>_initializeLayer\<close> catches the exception of \<open>_initialize\<close> and goes on to its next
  statement, \<open>layer.internalState.layer = layer\<close>, which throws a TypeError because the
  internal state is still \<open>null\<close>.  In the run below a new layer with id \<open>a\<close> is submitted, and
  in the next frame a new descriptor with the same id.  Both calls of \<open>setLayers\<close> raise that
  TypeError; neither layer leaves \<open>NO_STATE\<close> or gets an internal state, so no change flag is
  ever set; \<open>initializeState\<close> is not called; the live list stays empty, so the second
  descriptor finds no predecessor and nothing becomes \<open>MATCHED\<close> or \<open>AWAITING_GC\<close>.  Lemma
  \<open>no_layer_ever_goes_live\<close> shows the same for every sequence of calls on layers that have
  no internal state, which is how the constructor leaves them.
\<close>

theorem new_layer_is_never_initialized:
  "(case twoFramesRun of
      (errs, m, s) \<Rightarrow>
        errs = [Some (TypeError ''internalState is null''), Some (TypeError ''internalState is null'')] \<and>
        layers m = [] \<and>
        lifecycle (layerObjs s 1) = NO_STATE \<and> internalState (layerObjs s 1) = None \<and>
        lifecycle (layerObjs s 2) = NO_STATE \<and> internalState (layerObjs s 2) = None \<and>
        trace s =
          [Log_initializing 1,
           Warn_initializing 1 (TypeError ''super.initialize is not a function''),
           Warn_matching 1 (TypeError ''internalState is null''),
           Log_initializing 2,
           Warn_initializing 2 (TypeError ''super.initialize is not a function''),
           Warn_matching 2 (TypeError ''internalState is null'')])"
  by (simp add: twoFramesRun_def model_defs example_defs Let_def)

section \<open>Failure isolation\<close>

text \<open>The errors that \<open>_initializeLayer\<close> and \<open>_updateLayer\<close> catch and return do not reach the
  loop of \<open>_updateSublayersRecursively\<close>: whenever the two calls return, the \<open>try\<close> block goes on
  as if nothing had happened.\<close>

lemma tryMatch_drops_returned_errors:
  "initializeLayer r s = (Returned err, s1) \<Longrightarrow> tryMatch dp r None s = (Returned (), s1)"
  "transferLayerState dp q r s = (Returned (), s1) \<Longrightarrow> updateLayer r s1 = (Returned err, s2) \<Longrightarrow>
     tryMatch dp r (Some (Some q)) s = (Returned (), s2)"
  by (simp_all add: tryMatch_def seq_def)


section \<open>Finalization\<close>

text \<open>The assertion of \<open>_finalizeLayer\<close> fails for a layer that is \<open>AWAITING_FINALIZATION\<close> and
  for no other layer; every other layer, whatever its lifecycle state, ends \<open>FINALIZED\<close>.\<close>

lemma finalizeLayer_guard:
  "(fst (finalizeLayer r m s) = Threw (AssertionError [])) =
     (lifecycle (layerObjs s r) = AWAITING_FINALIZATION)"
  by (simp add: finalizeLayer_def Let_def split: prod.splits)

lemma finalizeLayer_otherwise:
  assumes "lifecycle (layerObjs s r) \<noteq> AWAITING_FINALIZATION"
  shows "\<exists>e m' s'. finalizeLayer r m s = (Returned e, m', s') \<and>
           lifecycle (layerObjs s' r) = FINALIZED"
  using assms
  by (auto simp: finalizeLayer_def Let_def updLayer_def emit_def split: prod.splits outcome.splits)


section \<open>Asynchronous loads\<close>






text \<open>\<open>_loadData\<close> of LayerObject keeps no counter.  It reads \<open>this.internalState\<close> before it
  does anything else, so on a layer without internal state it starts no load.\<close>

lemma loadData_without_internalState:
  "internalState (layerObjs s r) = None \<Longrightarrow>
   loadData r s = (Threw (TypeError ''internalState is null''), s)"
  by (simp add: loadData_def split: dataProp.splits)



section \<open>The reconciliation walk\<close>

subsection \<open>Steps that leave the layer objects alone\<close>









lemma quiet_updLayerState: "quiet s (updLayerState i f s)" by (simp add: quiet_def updLayerState_def)











lemma quiet_finalize: "LayerObject_finalize r s = (res, s') \<Longrightarrow> quiet s s'"
  by (auto simp: LayerObject_finalize_def quiet_def emit_def Let_def split: option.splits prod.splits)


subsection \<open>One layer of the walk\<close>








subsection \<open>The candidate map\<close>






lemma matchLayer_cases:
  fixes dp new sub m g s
  defines "k \<equiv> layer_id (layerObjs s new)"
  defines "s2 \<equiv> (if map_of m k = Some None
                   then emit (Warn_multiple_new new) (updLayer new (\<lambda>l. l\<lparr>layer_context := True\<rparr>) s)
                   else updLayer new (\<lambda>l. l\<lparr>layer_context := True\<rparr>) s)"
  assumes "matchLayer dp new sub (m, g, s) = (err, recurse, m1, g1, s1)"
  obtains r5 s5 where "tryMatch dp new (map_of m k) s2 = (r5, s5)" and "m1 = mapSet k None m"
    and "(\<exists>e. r5 = Threw e \<and> g1 = g \<and> s1 = emit (Warn_matching new e) s5) \<or>
         (r5 = Returned () \<and> g1 = g @ [new] \<and> (s1 = s5 \<or> (\<exists>e. s1 = emit (Warn_matching new e) s5)))"
proof -
  obtain r5 s5 where t: "tryMatch dp new (map_of m k) s2 = (r5, s5)"
    by (cases "tryMatch dp new (map_of m k) s2") auto
  have "m1 = mapSet k None m \<and>
        ((\<exists>e. r5 = Threw e \<and> g1 = g \<and> s1 = emit (Warn_matching new e) s5) \<or>
         (r5 = Returned () \<and> g1 = g @ [new] \<and> (s1 = s5 \<or> (\<exists>e. s1 = emit (Warn_matching new e) s5))))"
    using assms(3) unfolding matchLayer_eq k_def[symmetric] s2_def[symmetric] t
    by (cases r5; cases sub; cases "isComposite (layerObjs s5 new)") auto
  with t that show ?thesis by blast
qed



subsection \<open>The walk\<close>








subsection \<open>What one iteration logs\<close>



text \<open>The loop appends a layer whenever the first statements of its \<open>try\<close> block return; it
  does not look at what is in the array already.\<close>

lemma matchLayer_appends:
  assumes "matchLayer dp r sub (m, g, s) = (err, recurse, m1, g1, s1)"
  shows "g1 = g \<or> g1 = g @ [r]"
  using assms by (rule matchLayer_cases) auto

section \<open>Duplicate ids\<close>




end
